theory Spec2Isabelle
  imports Main
begin

section \<open>The signal handlers of judge/signals.py\<close>

text \<open>
  The module reacts to the \<open>post_save\<close> and \<open>post_delete\<close> signals of the
  object-relational mapper. Each handler is embedded as a function on an explicit
  \<open>world\<close>: the cache, the file system and the database tables the handlers read or
  write, and the log of the calls they make into code that lives outside the module.
\<close>

subsection \<open>Exceptions and the file system\<close>

text \<open>
  The exceptions that can leave a handler: an \<open>OSError\<close> with its \<open>errno\<close>, and the
  \<open>DatabaseError\<close> of a \<open>save\<close> with \<open>update_fields\<close> that affects no row.
\<close>

datatype exn = OSError int | DatabaseError

definition ENOENT :: int where
  "ENOENT = 2"

text \<open>
  A path of the file system is absent, or holds an entry that \<open>os.unlink\<close> removes
  (\<open>Regular\<close>), or is one on which \<open>os.unlink\<close> fails with the given \<open>errno\<close>
  (\<open>Refused\<close>: a directory, a file in a directory without write permission, a path on
  a read-only file system). A failed \<open>os.unlink\<close> leaves the file system as it was.
\<close>

datatype node = Regular | Refused int

text \<open>
  A handler leaves the world behind also when it raises: its result is the exception
  that left it, if any, and the world as the handler left it.
\<close>

type_synonym 'a result = "exn option \<times> 'a"

subsection \<open>Model instances and table rows\<close>

text \<open>
  The attribute \<open>_updating_stats_only\<close> is tested with \<open>hasattr\<close>: \<open>None\<close> is an object
  without the attribute, \<open>Some v\<close> an object on which it has been set to \<open>v\<close>.
\<close>

record problem =
  problem_id :: int
  problem_code :: string
  problem_updating_stats_only :: "bool option"

record profile =
  profile_id :: int
  is_webauthn_enabled :: bool
  is_totp_enabled :: bool
  display_rank :: string
  profile_updating_stats_only :: "bool option"

record contest =
  contest_id :: int
  contest_updating_stats_only :: "bool option"

record contest_problem =
  contest_problem_id :: int
  cp_contest :: contest

record participation =
  participation_id :: int
  participation_contest_id :: int

record contest_submission =
  contest_submission_id :: int
  cs_submission_id :: int
  cs_participation :: participation

record submission =
  submission_id :: int
  submission_user :: profile
  submission_problem :: problem

record webauthn_credential =
  webauthn_credential_id :: int
  credential_user :: profile

text \<open>Models of which the handlers read the primary key at most.\<close>

record license =
  license_id :: int

record language =
  language_id :: int

record judge =
  judge_id :: int

record comment =
  comment_id :: int

record blog_post =
  blog_post_id :: int

record organization =
  organization_id :: int

record misc_config =
  misc_config_key :: string
  misc_config_value :: string

text \<open>A row of the submission table: the columns the handlers filter on or write.\<close>

record submission_row =
  row_user_id :: int
  row_problem_id :: int
  row_contest_object_id :: "int option"

text \<open>A row of the profile table.\<close>

record profile_row =
  row_is_webauthn_enabled :: bool
  row_is_totp_enabled :: bool
  row_display_rank :: string

subsection \<open>Calls that leave the module\<close>

text \<open>
  \<open>finished_submission\<close>, \<open>calculate_points\<close>, \<open>update_stats\<close> and
  \<open>recompute_results\<close> are defined elsewhere. A call to one of them is recorded
  with its argument as it is when the call is made.
\<close>

datatype call =
    Finished_submission submission
  | Calculate_points profile
  | Update_stats problem
  | Recompute_results participation

subsection \<open>The world\<close>

text \<open>
  \<^item> \<open>cache\<close>: the cache, from key to cached value;
  \<^item> \<open>files\<close>: the file system, from path to entry;
  \<^item> \<open>submissions\<close>, \<open>profiles\<close>: tables, from primary key to row;
  \<^item> \<open>contest_submission_rows\<close>: the \<open>submission_id\<close> column of the contest submission
    table, one entry for each row (the reverse one-to-one link \<open>contest\<close> of a submission
    is null when no row points at it);
  \<^item> \<open>webauthn_credential_rows\<close>: the \<open>user_id\<close> column of the credential table, one
    entry for each row;
  \<^item> \<open>profile_organizations\<close>: the rows \<open>(profile_id, organization_id)\<close> of the
    many-to-many table between profiles and organizations;
  \<^item> \<open>calls\<close>: the calls made into code outside the module, oldest first.
\<close>

record world =
  cache :: "string \<rightharpoonup> string"
  files :: "string \<rightharpoonup> node"
  submissions :: "int \<rightharpoonup> submission_row"
  profiles :: "int \<rightharpoonup> profile_row"
  contest_submission_rows :: "int list"
  webauthn_credential_rows :: "int list"
  profile_organizations :: "(int \<times> int) list"
  calls :: "call list"

subsection \<open>Settings and helpers of the framework\<close>

text \<open>
  An argument of the \<open>vary_on\<close> tuple given to \<open>make_template_fragment_key\<close>.
\<close>

datatype arg = Int_arg int | Str_arg string

text \<open>
  \<open>LANGUAGES\<close> and \<open>DMOJ_PDF_PROBLEM_CACHE\<close> are the settings the module reads,
  \<open>EFFECTIVE_MATH_ENGINES\<close> is the constant it imports from the models, and
  \<open>make_template_fragment_key\<close> is the framework's helper that builds the cache key
  of a template fragment from the fragment's name and the \<open>vary_on\<close> arguments.
\<close>

record env =
  LANGUAGES :: "(string \<times> string) list"
  DMOJ_PDF_PROBLEM_CACHE :: "string option"
  EFFECTIVE_MATH_ENGINES :: "string list"
  make_template_fragment_key :: "string \<Rightarrow> arg list \<Rightarrow> string"

text \<open>\<open>os.unlink\<close>: removes the entry at the path, or raises \<open>OSError\<close>.\<close>

definition os_unlink :: "string \<Rightarrow> world \<Rightarrow> world result" where
  "os_unlink file w =
     (case files w file of
        None \<Rightarrow> (Some (OSError ENOENT), w)
      | Some Regular \<Rightarrow> (None, w\<lparr>files := (files w)(file := None)\<rparr>)
      | Some (Refused e) \<Rightarrow> (Some (OSError e), w))"

text \<open>
  \<open>os.path.join\<close> of two components (\<open>posixpath\<close>): an absolute second component
  replaces the first.
\<close>

definition os_path_join :: "string \<Rightarrow> string \<Rightarrow> string" where
  "os_path_join a b =
     (if b \<noteq> [] \<and> hd b = CHR ''/'' then b
      else if a = [] \<or> last a = CHR ''/'' then a @ b
      else a @ ''/'' @ b)"

text \<open>
  The decimal numeral of an integer, as \<open>'%s'\<close> and \<open>'%d'\<close> format it.
\<close>

fun digits_of :: "nat \<Rightarrow> string" where
  "digits_of n =
     (if n < 10 then [char_of (48 + n)]
      else digits_of (n div 10) @ [char_of (48 + n mod 10)])"

declare digits_of.simps [simp del]

definition str_int :: "int \<Rightarrow> string" where
  "str_int i = (if i < 0 then CHR ''-'' # digits_of (nat (- i)) else digits_of (nat i))"

text \<open>
  \<open>cache.delete\<close> and \<open>cache.delete_many\<close>: deleting a key that is not cached is
  not an error.
\<close>

definition cache_delete :: "string \<Rightarrow> world \<Rightarrow> world" where
  "cache_delete key w = w\<lparr>cache := (cache w)(key := None)\<rparr>"

fun cache_delete_many :: "string list \<Rightarrow> world \<Rightarrow> world" where
  "cache_delete_many [] w = w"
| "cache_delete_many (key # keys) w = cache_delete_many keys (cache_delete key w)"

text \<open>A call into code outside the module is appended to the log.\<close>

definition call :: "call \<Rightarrow> world \<Rightarrow> world" where
  "call c w = w\<lparr>calls := calls w @ [c]\<rparr>"

text \<open>
  \<open>Submission.objects.filter(...).update(...)\<close>: one \<open>UPDATE\<close> statement; every row
  that the filter selects is rewritten, no row is added or removed, and no signal is sent.
  The filter sees the primary key and the row.
\<close>

definition submissions_filter_update ::
  "(int \<Rightarrow> submission_row \<Rightarrow> bool) \<Rightarrow> (submission_row \<Rightarrow> submission_row) \<Rightarrow> world \<Rightarrow> world" where
  "submissions_filter_update sel upd w =
     w\<lparr>submissions :=
         (\<lambda>pk. case submissions w pk of
                  None \<Rightarrow> None
                | Some row \<Rightarrow> Some (if sel pk row then upd row else row))\<rparr>"

text \<open>
  \<open>contest__isnull=True\<close>: no row of the contest submission table points at the
  submission.
\<close>

definition contest_isnull :: "world \<Rightarrow> int \<Rightarrow> bool" where
  "contest_isnull w pk = (pk \<notin> set (contest_submission_rows w))"

text \<open>\<open>profile.webauthn_credentials.count()\<close>.\<close>

definition webauthn_credentials_count :: "profile \<Rightarrow> world \<Rightarrow> nat" where
  "webauthn_credentials_count p w =
     length (filter (\<lambda>user_id. user_id = profile_id p) (webauthn_credential_rows w))"

text \<open>\<open>instance.organizations.values_list('id', flat=True)\<close>.\<close>

definition organizations_values_list_id :: "profile \<Rightarrow> world \<Rightarrow> int list" where
  "organizations_values_list_id p w =
     [org_id. (pid, org_id) \<leftarrow> profile_organizations w, pid = profile_id p]"

subsection \<open>The module\<close>

text \<open>
  \<^verbatim>\<open>
  def get_pdf_path(basename: str) -> Optional[str]:
      if not settings.DMOJ_PDF_PROBLEM_CACHE:
          return None

      return os.path.join(settings.DMOJ_PDF_PROBLEM_CACHE, basename)
  \<close>
  The setting is false when it is \<open>None\<close> and when it is the empty string.
\<close>

definition get_pdf_path :: "env \<Rightarrow> string \<Rightarrow> string option" where
  "get_pdf_path env basename =
     (case DMOJ_PDF_PROBLEM_CACHE env of
        None \<Rightarrow> None
      | Some dir \<Rightarrow> if dir = [] then None else Some (os_path_join dir basename))"

text \<open>
  \<^verbatim>\<open>
  def unlink_if_exists(file):
      try:
          os.unlink(file)
      except OSError as e:
          if e.errno != errno.ENOENT:
              raise
  \<close>
\<close>

definition unlink_if_exists :: "string \<Rightarrow> world \<Rightarrow> world result" where
  "unlink_if_exists file w =
     (case os_unlink file w of
        (None, w') \<Rightarrow> (None, w')
      | (Some (OSError e), w') \<Rightarrow> (if e \<noteq> ENOENT then (Some (OSError e), w') else (None, w'))
      | (Some x, w') \<Rightarrow> (Some x, w'))"


text \<open>
  The handler of \<open>post_save\<close> for \<open>Problem\<close>. The loop over \<open>settings.LANGUAGES\<close>
  that unlinks the cached PDF files is \<open>unlink_cached_pdfs\<close>; an exception leaves the
  loop and the handler.
  \<^verbatim>\<open>
  def problem_update(sender, instance, **kwargs):
      if hasattr(instance, '_updating_stats_only'):
          return

      cache.delete_many([
          make_template_fragment_key('submission_problem', (instance.id,)),
          make_template_fragment_key('problem_feed', (instance.id,)),
          'problem_tls:%s' % instance.id, 'problem_mls:%s' % instance.id,
      ])
      cache.delete_many([make_template_fragment_key('problem_html', (instance.id, engine, lang))
                         for lang, _ in settings.LANGUAGES for engine in EFFECTIVE_MATH_ENGINES])
      cache.delete_many([make_template_fragment_key('problem_authors', (instance.id, lang))
                         for lang, _ in settings.LANGUAGES])
      cache.delete_many(['generated-meta-problem:%s:%d' % (lang, instance.id) for lang, _ in settings.LANGUAGES])

      for lang, _ in settings.LANGUAGES:
          cached_pdf_filename = get_pdf_path('%s.%s.pdf' % (instance.code, lang))
          if cached_pdf_filename is not None:
              unlink_if_exists(cached_pdf_filename)
  \<close>
\<close>

fun unlink_cached_pdfs :: "env \<Rightarrow> problem \<Rightarrow> (string \<times> string) list \<Rightarrow> world \<Rightarrow> world result" where
  "unlink_cached_pdfs env instance [] w = (None, w)"
| "unlink_cached_pdfs env instance ((lang, name) # languages) w =
     (case get_pdf_path env (problem_code instance @ ''.'' @ lang @ ''.pdf'') of
        None \<Rightarrow> unlink_cached_pdfs env instance languages w
      | Some cached_pdf_filename \<Rightarrow>
          (case unlink_if_exists cached_pdf_filename w of
             (None, w') \<Rightarrow> unlink_cached_pdfs env instance languages w'
           | (Some e, w') \<Rightarrow> (Some e, w')))"

definition problem_update :: "env \<Rightarrow> problem \<Rightarrow> world \<Rightarrow> world result" where
  "problem_update env instance w =
     (if problem_updating_stats_only instance \<noteq> None then (None, w)
      else
        let w1 = cache_delete_many
                   [make_template_fragment_key env ''submission_problem''
                      [Int_arg (problem_id instance)],
                    make_template_fragment_key env ''problem_feed''
                      [Int_arg (problem_id instance)],
                    ''problem_tls:'' @ str_int (problem_id instance),
                    ''problem_mls:'' @ str_int (problem_id instance)] w;
            w2 = cache_delete_many
                   [make_template_fragment_key env ''problem_html''
                      [Int_arg (problem_id instance), Str_arg engine, Str_arg lang].
                    (lang, name) \<leftarrow> LANGUAGES env, engine \<leftarrow> EFFECTIVE_MATH_ENGINES env] w1;
            w3 = cache_delete_many
                   [make_template_fragment_key env ''problem_authors''
                      [Int_arg (problem_id instance), Str_arg lang].
                    (lang, name) \<leftarrow> LANGUAGES env] w2;
            w4 = cache_delete_many
                   [''generated-meta-problem:'' @ lang @ '':'' @ str_int (problem_id instance).
                    (lang, name) \<leftarrow> LANGUAGES env] w3
        in unlink_cached_pdfs env instance (LANGUAGES env) w4)"

text \<open>
  \<^verbatim>\<open>
  def profile_update(sender, instance, **kwargs):
      if hasattr(instance, '_updating_stats_only'):
          return

      cache.delete_many([make_template_fragment_key('user_about', (instance.id, engine))
                         for engine in EFFECTIVE_MATH_ENGINES] +
                        [make_template_fragment_key('org_member_count', (org_id,))
                         for org_id in instance.organizations.values_list('id', flat=True)])
  \<close>
\<close>

definition profile_update :: "env \<Rightarrow> profile \<Rightarrow> world \<Rightarrow> world" where
  "profile_update env instance w =
     (if profile_updating_stats_only instance \<noteq> None then w
      else cache_delete_many
             ([make_template_fragment_key env ''user_about''
                 [Int_arg (profile_id instance), Str_arg engine].
               engine \<leftarrow> EFFECTIVE_MATH_ENGINES env] @
              [make_template_fragment_key env ''org_member_count'' [Int_arg org_id].
               org_id \<leftarrow> organizations_values_list_id instance w]) w)"

text \<open>
  \<open>profile.save(update_fields=...)\<close> of the framework: one \<open>UPDATE\<close> of the named
  columns on the row with the object's primary key, a \<open>DatabaseError\<close> when no row is
  affected, and then the \<open>post_save\<close> signal, whose receiver for \<open>Profile\<close> is
  \<open>profile_update\<close>.
\<close>

definition profile_save :: "env \<Rightarrow> profile \<Rightarrow> string list \<Rightarrow> world \<Rightarrow> world result" where
  "profile_save env p update_fields w =
     (case profiles w (profile_id p) of
        None \<Rightarrow> (Some DatabaseError, w)
      | Some row \<Rightarrow>
          (None,
           profile_update env p
             (w\<lparr>profiles := (profiles w)(profile_id p \<mapsto>
                  \<lparr>row_is_webauthn_enabled =
                     (if ''is_webauthn_enabled'' \<in> set update_fields
                      then is_webauthn_enabled p else row_is_webauthn_enabled row),
                   row_is_totp_enabled =
                     (if ''is_totp_enabled'' \<in> set update_fields
                      then is_totp_enabled p else row_is_totp_enabled row),
                   row_display_rank =
                     (if ''display_rank'' \<in> set update_fields
                      then display_rank p else row_display_rank row)\<rparr>)\<rparr>)))"

text \<open>
  The handler returns the instance too: the assignment to the field of the profile is
  visible to whoever holds the object.
  \<^verbatim>\<open>
  def webauthn_delete(sender, instance, **kwargs):
      profile = instance.user
      if profile.webauthn_credentials.count() == 0:
          profile.is_webauthn_enabled = False
          profile.save(update_fields=['is_webauthn_enabled'])
  \<close>
\<close>

definition webauthn_delete ::
  "env \<Rightarrow> webauthn_credential \<Rightarrow> world \<Rightarrow> (webauthn_credential \<times> world) result" where
  "webauthn_delete env instance w =
     (let profile = credential_user instance in
      if webauthn_credentials_count profile w = 0 then
        let profile' = profile\<lparr>is_webauthn_enabled := False\<rparr> in
        (case profile_save env profile' [''is_webauthn_enabled''] w of
           (r, w') \<Rightarrow> (r, instance\<lparr>credential_user := profile'\<rparr>, w'))
      else (None, instance, w))"

text \<open>
  \<^verbatim>\<open>
  def contest_update(sender, instance, **kwargs):
      if hasattr(instance, '_updating_stats_only'):
          return

      cache.delete_many(['generated-meta-contest:%d' % instance.id] +
                        [make_template_fragment_key('contest_html', (instance.id, engine))
                         for engine in EFFECTIVE_MATH_ENGINES])
  \<close>
\<close>

definition contest_update :: "env \<Rightarrow> contest \<Rightarrow> world \<Rightarrow> world" where
  "contest_update env instance w =
     (if contest_updating_stats_only instance \<noteq> None then w
      else cache_delete_many
             ([''generated-meta-contest:'' @ str_int (contest_id instance)] @
              [make_template_fragment_key env ''contest_html''
                 [Int_arg (contest_id instance), Str_arg engine].
               engine \<leftarrow> EFFECTIVE_MATH_ENGINES env]) w)"

text \<open>
  \<^verbatim>\<open>
  def contest_problem_delete(sender, instance, **kwargs):
      # `contest_object` is the `Contest` object indirectly associated with the `Submission` object
      # `contest` is the `ContestSubmission` object associated with the `Submission` object
      Submission.objects.filter(contest_object=instance.contest, contest__isnull=True).update(contest_object=None)
  \<close>
\<close>

definition contest_problem_delete :: "contest_problem \<Rightarrow> world \<Rightarrow> world" where
  "contest_problem_delete instance w =
     submissions_filter_update
       (\<lambda>pk row. row_contest_object_id row = Some (contest_id (cp_contest instance)) \<and>
                  contest_isnull w pk)
       (\<lambda>row. row\<lparr>row_contest_object_id := None\<rparr>) w"

text \<open>
  \<^verbatim>\<open>
  def license_update(sender, instance, **kwargs):
      cache.delete(make_template_fragment_key('license_html', (instance.id,)))

  def language_update(sender, instance, **kwargs):
      cache.delete_many([make_template_fragment_key('language_html', (instance.id,)),
                         'lang:cn_map'])

  def judge_update(sender, instance, **kwargs):
      cache.delete(make_template_fragment_key('judge_html', (instance.id,)))

  def comment_update(sender, instance, **kwargs):
      cache.delete('comment_feed:%d' % instance.id)
  \<close>
\<close>

definition license_update :: "env \<Rightarrow> license \<Rightarrow> world \<Rightarrow> world" where
  "license_update env instance w =
     cache_delete (make_template_fragment_key env ''license_html''
                     [Int_arg (license_id instance)]) w"

definition language_update :: "env \<Rightarrow> language \<Rightarrow> world \<Rightarrow> world" where
  "language_update env instance w =
     cache_delete_many
       [make_template_fragment_key env ''language_html'' [Int_arg (language_id instance)],
        ''lang:cn_map''] w"

definition judge_update :: "env \<Rightarrow> judge \<Rightarrow> world \<Rightarrow> world" where
  "judge_update env instance w =
     cache_delete (make_template_fragment_key env ''judge_html''
                     [Int_arg (judge_id instance)]) w"

definition comment_update :: "comment \<Rightarrow> world \<Rightarrow> world" where
  "comment_update instance w =
     cache_delete (''comment_feed:'' @ str_int (comment_id instance)) w"

text \<open>
  \<^verbatim>\<open>
  def post_update(sender, instance, **kwargs):
      cache.delete_many([
          make_template_fragment_key('post_summary', (instance.id,)),
          'blog_slug:%d' % instance.id,
          'blog_feed:%d' % instance.id,
      ])
      cache.delete_many([make_template_fragment_key('post_content', (instance.id, engine))
                         for engine in EFFECTIVE_MATH_ENGINES])
  \<close>
\<close>

definition post_update :: "env \<Rightarrow> blog_post \<Rightarrow> world \<Rightarrow> world" where
  "post_update env instance w =
     (let w1 = cache_delete_many
                 [make_template_fragment_key env ''post_summary''
                    [Int_arg (blog_post_id instance)],
                  ''blog_slug:'' @ str_int (blog_post_id instance),
                  ''blog_feed:'' @ str_int (blog_post_id instance)] w
      in cache_delete_many
           [make_template_fragment_key env ''post_content''
              [Int_arg (blog_post_id instance), Str_arg engine].
            engine \<leftarrow> EFFECTIVE_MATH_ENGINES env] w1)"

text \<open>
  The handler returns the instance too: the attributes it sets on the user and on the
  problem of the submission are visible to whoever holds these objects.
  \<^verbatim>\<open>
  def submission_delete(sender, instance, **kwargs):
      finished_submission(instance)
      instance.user._updating_stats_only = True
      instance.user.calculate_points()
      instance.problem._updating_stats_only = True
      instance.problem.update_stats()
  \<close>
\<close>

definition submission_delete :: "submission \<Rightarrow> world \<Rightarrow> submission \<times> world" where
  "submission_delete instance w =
     (let w1 = call (Finished_submission instance) w;
          instance1 = instance\<lparr>submission_user :=
                        (submission_user instance)\<lparr>profile_updating_stats_only := Some True\<rparr>\<rparr>;
          w2 = call (Calculate_points (submission_user instance1)) w1;
          instance2 = instance1\<lparr>submission_problem :=
                        (submission_problem instance1)\<lparr>problem_updating_stats_only := Some True\<rparr>\<rparr>;
          w3 = call (Update_stats (submission_problem instance2)) w2
      in (instance2, w3))"

text \<open>
  \<^verbatim>\<open>
  def contest_submission_delete(sender, instance, **kwargs):
      participation = instance.participation
      participation.recompute_results()
      Submission.objects.filter(id=instance.submission_id).update(contest_object=None)
  \<close>
\<close>

definition contest_submission_delete :: "contest_submission \<Rightarrow> world \<Rightarrow> world" where
  "contest_submission_delete instance w =
     (let participation = cs_participation instance;
          w1 = call (Recompute_results participation) w
      in submissions_filter_update
           (\<lambda>pk row. pk = cs_submission_id instance)
           (\<lambda>row. row\<lparr>row_contest_object_id := None\<rparr>) w1)"

text \<open>
  \<^verbatim>\<open>
  def organization_update(sender, instance, **kwargs):
      cache.delete_many([make_template_fragment_key('organization_html', (instance.id, engine))
                         for engine in EFFECTIVE_MATH_ENGINES])

  def misc_config_update(sender, instance, **kwargs):
      cache.delete('misc_config')

  def misc_config_delete(sender, instance, **kwargs):
      cache.delete('misc_config')

  def contest_submission_update(sender, instance, **kwargs):
      Submission.objects.filter(id=instance.submission_id).update(contest_object_id=instance.participation.contest_id)
  \<close>
\<close>

definition organization_update :: "env \<Rightarrow> organization \<Rightarrow> world \<Rightarrow> world" where
  "organization_update env instance w =
     cache_delete_many
       [make_template_fragment_key env ''organization_html''
          [Int_arg (organization_id instance), Str_arg engine].
        engine \<leftarrow> EFFECTIVE_MATH_ENGINES env] w"

definition misc_config_update :: "misc_config \<Rightarrow> world \<Rightarrow> world" where
  "misc_config_update instance w = cache_delete ''misc_config'' w"

definition misc_config_delete :: "misc_config \<Rightarrow> world \<Rightarrow> world" where
  "misc_config_delete instance w = cache_delete ''misc_config'' w"

definition contest_submission_update :: "contest_submission \<Rightarrow> world \<Rightarrow> world" where
  "contest_submission_update instance w =
     submissions_filter_update
       (\<lambda>pk row. pk = cs_submission_id instance)
       (\<lambda>row. row\<lparr>row_contest_object_id :=
                  Some (participation_contest_id (cs_participation instance))\<rparr>) w"

subsection \<open>The receivers\<close>

text \<open>
  Each \<open>@receiver(signal, sender=Model)\<close> decoration connects the function under it
  to one signal of one sender. The registrations, in the order of the module:
\<close>

datatype signal = Post_save | Post_delete

datatype sender =
    Problem | Profile | WebAuthnCredential | Contest | ContestProblem | License | Language
  | Judge | Comment | BlogPost | Submission | ContestSubmission | Organization | MiscConfig

datatype handler =
    Problem_update | Profile_update | Webauthn_delete | Contest_update
  | Contest_problem_delete | License_update | Language_update | Judge_update
  | Comment_update | Post_update | Submission_delete | Contest_submission_delete
  | Organization_update | Misc_config_update | Misc_config_delete
  | Contest_submission_update

definition receivers :: "(signal \<times> sender \<times> handler) list" where
  "receivers =
     [(Post_save, Problem, Problem_update),
      (Post_save, Profile, Profile_update),
      (Post_delete, WebAuthnCredential, Webauthn_delete),
      (Post_save, Contest, Contest_update),
      (Post_delete, ContestProblem, Contest_problem_delete),
      (Post_save, License, License_update),
      (Post_save, Language, Language_update),
      (Post_save, Judge, Judge_update),
      (Post_save, Comment, Comment_update),
      (Post_save, BlogPost, Post_update),
      (Post_delete, Submission, Submission_delete),
      (Post_delete, ContestSubmission, Contest_submission_delete),
      (Post_save, Organization, Organization_update),
      (Post_save, MiscConfig, Misc_config_update),
      (Post_delete, MiscConfig, Misc_config_delete),
      (Post_save, ContestSubmission, Contest_submission_update)]"

subsection \<open>A concrete installation\<close>

text \<open>
  Two languages, two math engines, a directory for the cached PDF files, and a
  stand-in for the fragment key helper that joins the fragment's name and the
  arguments with dots. The theorems below hold for any settings and any helper; these
  values instantiate them.
\<close>

definition example_fragment_key :: "string \<Rightarrow> arg list \<Rightarrow> string" where
  "example_fragment_key fragment_name vary_on =
     ''template.cache.'' @ fragment_name @
     concat (map (\<lambda>a. case a of Int_arg i \<Rightarrow> ''.'' @ str_int i | Str_arg s \<Rightarrow> ''.'' @ s) vary_on)"

definition example_env :: env where
  "example_env =
     \<lparr>LANGUAGES = [(''en'', ''English''), (''fr'', ''French'')],
      DMOJ_PDF_PROBLEM_CACHE = Some ''/pdf'',
      EFFECTIVE_MATH_ENGINES = [''svg'', ''mml''],
      make_template_fragment_key = example_fragment_key\<rparr>"

definition empty_world :: world where
  "empty_world =
     \<lparr>cache = Map.empty, files = Map.empty, submissions = Map.empty, profiles = Map.empty,
      contest_submission_rows = [], webauthn_credential_rows = [],
      profile_organizations = [], calls = []\<rparr>"

text \<open>
  A problem, a profile, a contest and a submission with its contest submission, and a
  world that holds them: four submissions, of which 8 and 10 have a contest submission
  pointing at them, and the cached PDF files of two problems.
\<close>

definition example_problem :: problem where
  "example_problem =
     \<lparr>problem_id = 1, problem_code = ''aplusb'', problem_updating_stats_only = None\<rparr>"

definition example_profile :: profile where
  "example_profile =
     \<lparr>profile_id = 3, is_webauthn_enabled = True, is_totp_enabled = False,
      display_rank = ''user'', profile_updating_stats_only = None\<rparr>"

definition example_contest :: contest where
  "example_contest = \<lparr>contest_id = 5, contest_updating_stats_only = None\<rparr>"

definition example_submission :: submission where
  "example_submission =
     \<lparr>submission_id = 7, submission_user = example_profile,
      submission_problem = example_problem\<rparr>"

definition example_contest_submission :: contest_submission where
  "example_contest_submission =
     \<lparr>contest_submission_id = 11, cs_submission_id = 8,
      cs_participation = \<lparr>participation_id = 9, participation_contest_id = 5\<rparr>\<rparr>"

definition example_world :: world where
  "example_world =
     \<lparr>cache = [''problem_tls:1'' \<mapsto> ''2.0'', ''problem_tls:2'' \<mapsto> ''1.0'',
               ''generated-meta-contest:5'' \<mapsto> ''meta'', ''misc_config'' \<mapsto> ''value''],
      files = [''/pdf/aplusb.en.pdf'' \<mapsto> Regular, ''/pdf/fizzbuzz.en.pdf'' \<mapsto> Regular],
      submissions =
        [7 \<mapsto> \<lparr>row_user_id = 3, row_problem_id = 1, row_contest_object_id = Some 5\<rparr>,
         8 \<mapsto> \<lparr>row_user_id = 3, row_problem_id = 1, row_contest_object_id = None\<rparr>,
         9 \<mapsto> \<lparr>row_user_id = 3, row_problem_id = 1, row_contest_object_id = Some 6\<rparr>,
         10 \<mapsto> \<lparr>row_user_id = 3, row_problem_id = 1, row_contest_object_id = Some 5\<rparr>],
      profiles =
        [3 \<mapsto> \<lparr>row_is_webauthn_enabled = True, row_is_totp_enabled = False,
               row_display_rank = ''user''\<rparr>],
      contest_submission_rows = [8, 10],
      webauthn_credential_rows = [],
      profile_organizations = [(3, 4)],
      calls = []\<rparr>"

text \<open>
  The same world with other files: the cached PDF file of the first language is an entry
  on which \<open>os.unlink\<close> fails with \<open>EACCES\<close> (13), that of the second language is an
  ordinary file.
\<close>

definition refusing_world :: world where
  "refusing_world =
     example_world\<lparr>files := [''/pdf/aplusb.en.pdf'' \<mapsto> Refused 13,
                              ''/pdf/aplusb.fr.pdf'' \<mapsto> Regular]\<rparr>"

section \<open>Properties\<close>

subsection \<open>The cache\<close>

lemma cache_delete_many_eq:
  "cache_delete_many keys w = w\<lparr>cache := cache w |` (- set keys)\<rparr>"
proof (induction keys arbitrary: w)
  case Nil
  then show ?case by simp
next
  case (Cons key keys)
  have eq: "(cache w)(key := None) |` (- set keys) = cache w |` (- set (key # keys))"
    by (rule ext) (simp add: restrict_map_def)
  have "cache_delete_many (key # keys) w = cache_delete_many keys (cache_delete key w)"
    by simp
  also have "\<dots> = (cache_delete key w)\<lparr>cache := cache (cache_delete key w) |` (- set keys)\<rparr>"
    by (rule Cons.IH)
  also have "\<dots> = w\<lparr>cache := (cache w)(key := None) |` (- set keys)\<rparr>"
    by (simp add: cache_delete_def)
  also have "\<dots> = w\<lparr>cache := cache w |` (- set (key # keys))\<rparr>"
    by (simp only: eq)
  finally show ?case .
qed

lemma cache_cache_delete_many:
  "cache (cache_delete_many keys w) = cache w |` (- set keys)"
  by (simp add: cache_delete_many_eq)

lemma restrict_restrict_compl:
  "m |` (- A) |` (- B) = m |` (- (A \<union> B))"
  by (rule ext) (simp add: restrict_map_def)

lemma cache_of_frame:
  "w'\<lparr>files := fs\<rparr> = w \<Longrightarrow> cache w' = cache w"
  by (metis world.select_convs(1) world.surjective world.update_convs(2))

text \<open>
  The decimal numerals of the primary keys of the concrete installation.
\<close>

lemma str_int_1: "str_int 1 = ''1''"
  by code_simp

lemma str_int_5: "str_int 5 = ''5''"
  by code_simp

subsection \<open>Unlinking one file\<close>

lemma unlink_if_exists_cases:
  "unlink_if_exists file w =
     (case files w file of
        None \<Rightarrow> (None, w)
      | Some Regular \<Rightarrow> (None, w\<lparr>files := (files w)(file := None)\<rparr>)
      | Some (Refused e) \<Rightarrow> (if e = ENOENT then (None, w) else (Some (OSError e), w)))"
  by (simp add: unlink_if_exists_def os_unlink_def split: option.splits node.splits)

lemma unlink_if_exists_frame:
  "(snd (unlink_if_exists file w))\<lparr>files := files w\<rparr> = w"
  by (simp add: unlink_if_exists_cases split: option.splits node.splits)

lemma unlink_if_exists_files:
  "files (snd (unlink_if_exists f w)) =
     (if files w f = Some Regular then (files w)(f := None) else files w)"
  by (simp add: unlink_if_exists_cases split: option.splits node.splits)

lemma unlink_if_exists_fst_cache:
  "fst (unlink_if_exists p (w\<lparr>cache := c\<rparr>)) = fst (unlink_if_exists p w)"
  by (simp add: unlink_if_exists_cases split: option.splits node.splits)

text \<open>
  Claim C9. \<open>unlink_if_exists\<close> returns normally when \<open>os.unlink\<close> succeeds and when
  the file does not exist (the \<open>OSError\<close> with \<open>errno\<close> \<open>ENOENT\<close> is swallowed); it raises
  again every \<open>OSError\<close> whose \<open>errno\<close> is not \<open>ENOENT\<close>; and whenever it returns
  normally, \<open>os.unlink\<close> has succeeded or has failed with \<open>ENOENT\<close>: no other
  failure is masked.
\<close>

theorem unlink_if_exists_swallows_only_ENOENT:
  "(os_unlink file w = (None, w') \<longrightarrow> unlink_if_exists file w = (None, w')) \<and>
   (files w file = None \<longrightarrow>
      os_unlink file w = (Some (OSError ENOENT), w) \<and> unlink_if_exists file w = (None, w)) \<and>
   (os_unlink file w = (Some (OSError ENOENT), w') \<longrightarrow> unlink_if_exists file w = (None, w')) \<and>
   (\<forall>e. e \<noteq> ENOENT \<and> os_unlink file w = (Some (OSError e), w') \<longrightarrow>
        unlink_if_exists file w = (Some (OSError e), w')) \<and>
   (fst (unlink_if_exists file w) = None \<longrightarrow>
      fst (os_unlink file w) = None \<or> fst (os_unlink file w) = Some (OSError ENOENT))"
  by (auto simp add: unlink_if_exists_def os_unlink_def split: option.splits node.splits exn.splits)

text \<open>
  A file that is removed, a file that does not exist, and a file on which \<open>os.unlink\<close>
  fails with \<open>EACCES\<close> (13).
\<close>

theorem unlink_if_exists_swallows_only_ENOENT_witness:
  "unlink_if_exists ''/pdf/aplusb.en.pdf''
     (empty_world\<lparr>files := [''/pdf/aplusb.en.pdf'' \<mapsto> Regular]\<rparr>) =
     (None, empty_world\<lparr>files := [''/pdf/aplusb.en.pdf'' \<mapsto> Regular](''/pdf/aplusb.en.pdf'' := None)\<rparr>) \<and>
   unlink_if_exists ''/pdf/aplusb.en.pdf'' empty_world = (None, empty_world) \<and>
   unlink_if_exists ''/pdf/aplusb.en.pdf''
     (empty_world\<lparr>files := [''/pdf/aplusb.en.pdf'' \<mapsto> Refused 13]\<rparr>) =
     (Some (OSError 13), empty_world\<lparr>files := [''/pdf/aplusb.en.pdf'' \<mapsto> Refused 13]\<rparr>)"
  using
    unlink_if_exists_swallows_only_ENOENT
      [of "''/pdf/aplusb.en.pdf''" "empty_world\<lparr>files := [''/pdf/aplusb.en.pdf'' \<mapsto> Regular]\<rparr>"
          "empty_world\<lparr>files := [''/pdf/aplusb.en.pdf'' \<mapsto> Regular](''/pdf/aplusb.en.pdf'' := None)\<rparr>"]
    unlink_if_exists_swallows_only_ENOENT
      [of "''/pdf/aplusb.en.pdf''" empty_world empty_world]
    unlink_if_exists_swallows_only_ENOENT
      [of "''/pdf/aplusb.en.pdf''" "empty_world\<lparr>files := [''/pdf/aplusb.en.pdf'' \<mapsto> Refused 13]\<rparr>"
          "empty_world\<lparr>files := [''/pdf/aplusb.en.pdf'' \<mapsto> Refused 13]\<rparr>"]
  by (simp add: os_unlink_def empty_world_def ENOENT_def)

subsection \<open>The loop over the languages\<close>

text \<open>
  The loop touches nothing but the files.
\<close>

lemma unlink_cached_pdfs_frame:
  "(snd (unlink_cached_pdfs env instance languages w))\<lparr>files := files w\<rparr> = w"
proof (induction languages arbitrary: w)
  case Nil
  show ?case by simp
next
  case (Cons l languages)
  obtain lang name where l: "l = (lang, name)" by (cases l)
  show ?case
  proof (cases "get_pdf_path env (problem_code instance @ ''.'' @ lang @ ''.pdf'')")
    case None
    with Cons l show ?thesis by simp
  next
    case (Some f)
    obtain r w1 where u: "unlink_if_exists f w = (r, w1)" by (cases "unlink_if_exists f w")
    have w1: "w1\<lparr>files := files w\<rparr> = w"
      using unlink_if_exists_frame [of w f] u by simp
    show ?thesis
    proof (cases r)
      case None
      let ?w' = "snd (unlink_cached_pdfs env instance languages w1)"
      have "?w'\<lparr>files := files w\<rparr> = (?w'\<lparr>files := files w1\<rparr>)\<lparr>files := files w\<rparr>"
        by simp
      also have "\<dots> = w1\<lparr>files := files w\<rparr>"
        by (simp only: Cons.IH)
      finally have "?w'\<lparr>files := files w\<rparr> = w"
        by (simp only: w1)
      with None Some u l show ?thesis by simp
    next
      case (Some e)
      with \<open>get_pdf_path env _ = Some f\<close> u l w1 show ?thesis by simp
    qed
  qed
qed

text \<open>
  Without a directory for the cached PDF files the loop does nothing.
\<close>

lemma unlink_cached_pdfs_unset:
  "\<forall>basename. get_pdf_path env basename = None \<Longrightarrow>
   unlink_cached_pdfs env instance languages w = (None, w)"
  by (induction languages arbitrary: w) auto

text \<open>
  With a directory, a loop that returns normally has removed the file of every
  language and no other path.
\<close>

lemma unlink_cached_pdfs_files:
  assumes "DMOJ_PDF_PROBLEM_CACHE env = Some dir" and "dir \<noteq> []"
    and "unlink_cached_pdfs env instance languages w = (None, w')"
  shows "files w' =
         (\<lambda>path. if path \<in> (\<lambda>lang. os_path_join dir (problem_code instance @ ''.'' @ lang @ ''.pdf''))
                            ` fst ` set languages \<and> files w path = Some Regular
                  then None else files w path)"
  using assms(3)
proof (induction languages arbitrary: w)
  case Nil
  then show ?case by auto
next
  case (Cons l languages)
  obtain lang name where l: "l = (lang, name)" by (cases l)
  let ?f = "os_path_join dir (problem_code instance @ ''.'' @ lang @ ''.pdf'')"
  have g: "get_pdf_path env (problem_code instance @ ''.'' @ lang @ ''.pdf'') = Some ?f"
    using assms(1,2) by (simp add: get_pdf_path_def)
  obtain r w1 where u: "unlink_if_exists ?f w = (r, w1)" by (cases "unlink_if_exists ?f w")
  with Cons.prems l g have r: "r = None"
    and rest: "unlink_cached_pdfs env instance languages w1 = (None, w')"
    by (auto split: option.splits)
  from u r have w1: "files w1 = (if files w ?f = Some Regular then (files w)(?f := None) else files w)"
    by (auto simp add: unlink_if_exists_cases split: option.splits node.splits if_splits)
  from Cons.IH [OF rest] w1 l show ?case
    by (auto simp add: fun_eq_iff)
qed

text \<open>
  The loop returns normally when no entry of the file system refuses to be unlinked, and
  an exception that leaves it is the \<open>OSError\<close> of such an entry.
\<close>

lemma unlink_cached_pdfs_returns:
  assumes "\<And>path e. files w path = Some (Refused e) \<Longrightarrow> e = ENOENT"
  shows "fst (unlink_cached_pdfs env instance languages w) = None"
  using assms
proof (induction languages arbitrary: w)
  case Nil
  show ?case by simp
next
  case (Cons l languages)
  obtain lang name where l: "l = (lang, name)" by (cases l)
  show ?case
  proof (cases "get_pdf_path env (problem_code instance @ ''.'' @ lang @ ''.pdf'')")
    case None
    with Cons l show ?thesis by simp
  next
    case (Some f)
    show ?thesis
    proof (cases "files w f = Some Regular")
      case True
      have "fst (unlink_cached_pdfs env instance languages (w\<lparr>files := (files w)(f := None)\<rparr>)) = None"
        by (rule Cons.IH) (use Cons.prems in \<open>simp split: if_splits\<close>)
      with True Some l show ?thesis by (simp add: unlink_if_exists_cases)
    next
      case False
      then have "unlink_if_exists f w = (None, w)"
        using Cons.prems [of f] by (auto simp add: unlink_if_exists_cases split: option.splits node.splits)
      with Some l Cons.IH [of w] Cons.prems show ?thesis by simp
    qed
  qed
qed

lemma unlink_cached_pdfs_raises:
  assumes "unlink_cached_pdfs env instance languages w = (Some x, w')"
  shows "\<exists>e path. x = OSError e \<and> e \<noteq> ENOENT \<and> files w path = Some (Refused e)"
  using assms
proof (induction languages arbitrary: w)
  case Nil
  then show ?case by simp
next
  case (Cons l languages)
  obtain lang name where l: "l = (lang, name)" by (cases l)
  show ?case
  proof (cases "get_pdf_path env (problem_code instance @ ''.'' @ lang @ ''.pdf'')")
    case None
    with Cons l show ?thesis by simp
  next
    case (Some f)
    show ?thesis
    proof (cases "files w f")
      case None
      with Some l Cons.prems have "unlink_cached_pdfs env instance languages w = (Some x, w')"
        by (simp add: unlink_if_exists_cases)
      then show ?thesis by (rule Cons.IH)
    next
      case (Some n)
      note n = this
      show ?thesis
      proof (cases n)
        case Regular
        with n \<open>get_pdf_path env _ = Some f\<close> l Cons.prems
        have "unlink_cached_pdfs env instance languages (w\<lparr>files := (files w)(f := None)\<rparr>) = (Some x, w')"
          by (simp add: unlink_if_exists_cases)
        from Cons.IH [OF this] show ?thesis
          by (auto split: if_splits)
      next
        case (Refused e)
        show ?thesis
        proof (cases "e = ENOENT")
          case True
          with Refused n \<open>get_pdf_path env _ = Some f\<close> l Cons.prems
          have "unlink_cached_pdfs env instance languages w = (Some x, w')"
            by (simp add: unlink_if_exists_cases)
          then show ?thesis by (rule Cons.IH)
        next
          case False
          with Refused n \<open>get_pdf_path env _ = Some f\<close> l Cons.prems
          have "x = OSError e" by (simp add: unlink_if_exists_cases)
          with False Refused n show ?thesis by blast
        qed
      qed
    qed
  qed
qed

text \<open>
  The loop in full: it stops at the first path whose unlinking raises, with that
  exception, and has removed the files of the paths before it.
\<close>

lemma unlink_cached_pdfs_fst:
  assumes "DMOJ_PDF_PROBLEM_CACHE env = Some dir" and "dir \<noteq> []"
  shows "fst (unlink_cached_pdfs env instance languages w) =
     (case dropWhile (\<lambda>p. fst (unlink_if_exists p w) = None)
              (map (\<lambda>(lang, name). os_path_join dir (problem_code instance @ ''.'' @ lang @ ''.pdf''))
                 languages) of
         [] \<Rightarrow> None
       | p # ps \<Rightarrow> fst (unlink_if_exists p w))"
proof (induction languages arbitrary: w)
  case Nil
  show ?case by simp
next
  case (Cons l languages)
  obtain lang name where l: "l = (lang, name)" by (cases l)
  let ?f = "os_path_join dir (problem_code instance @ ''.'' @ lang @ ''.pdf'')"
  have g: "get_pdf_path env (problem_code instance @ ''.'' @ lang @ ''.pdf'') = Some ?f"
    using assms by (simp add: get_pdf_path_def)
  obtain r w1 where u: "unlink_if_exists ?f w = (r, w1)" by (cases "unlink_if_exists ?f w")
  show ?case
  proof (cases r)
    case (Some x)
    with g l u show ?thesis by simp
  next
    case None
    have same: "(\<lambda>p. fst (unlink_if_exists p w1) = None) = (\<lambda>p. fst (unlink_if_exists p w) = None)"
      and same': "fst (unlink_if_exists p w1) = fst (unlink_if_exists p w)" for p
      using u by (auto simp add: unlink_if_exists_cases fun_eq_iff split: option.splits node.splits if_splits)
    have step: "unlink_cached_pdfs env instance (l # languages) w =
        unlink_cached_pdfs env instance languages w1"
      using None g l u by simp
    have okf: "fst (unlink_if_exists ?f w) = None"
      using u None by simp
    have "fst (unlink_cached_pdfs env instance languages w1) =
        (case dropWhile (\<lambda>p. fst (unlink_if_exists p w) = None)
              (map (\<lambda>(lang, name). os_path_join dir (problem_code instance @ ''.'' @ lang @ ''.pdf''))
                 languages) of
           [] \<Rightarrow> None
         | p # ps \<Rightarrow> fst (unlink_if_exists p w))"
      using Cons.IH [of w1] by (simp add: same same' cong: list.case_cong)
    with step okf l show ?thesis by simp
  qed
qed

lemma unlink_cached_pdfs_files_upto:
  assumes "DMOJ_PDF_PROBLEM_CACHE env = Some dir" and "dir \<noteq> []"
  shows "files (snd (unlink_cached_pdfs env instance languages w)) =
     (\<lambda>q. if q \<in> set (takeWhile (\<lambda>p. fst (unlink_if_exists p w) = None)
                        (map (\<lambda>(lang, name). os_path_join dir (problem_code instance @ ''.'' @ lang @ ''.pdf''))
                           languages)) \<and>
              files w q = Some Regular
           then None else files w q)"
proof (induction languages arbitrary: w)
  case Nil
  show ?case by simp
next
  case (Cons l languages)
  obtain lang name where l: "l = (lang, name)" by (cases l)
  let ?f = "os_path_join dir (problem_code instance @ ''.'' @ lang @ ''.pdf'')"
  have g: "get_pdf_path env (problem_code instance @ ''.'' @ lang @ ''.pdf'') = Some ?f"
    using assms by (simp add: get_pdf_path_def)
  obtain r w1 where u: "unlink_if_exists ?f w = (r, w1)" by (cases "unlink_if_exists ?f w")
  show ?case
  proof (cases r)
    case (Some x)
    with u have "files w1 = files w"
      by (auto simp add: unlink_if_exists_cases split: option.splits node.splits if_splits)
    with Some g l u show ?thesis by simp
  next
    case None
    have same: "(\<lambda>p. fst (unlink_if_exists p w1) = None) = (\<lambda>p. fst (unlink_if_exists p w) = None)"
      using u by (auto simp add: unlink_if_exists_cases fun_eq_iff split: option.splits node.splits if_splits)
    have w1: "files w1 = (if files w ?f = Some Regular then (files w)(?f := None) else files w)"
      using unlink_if_exists_files [of ?f w] u by simp
    from None g l u have "files (snd (unlink_cached_pdfs env instance (l # languages) w)) =
        files (snd (unlink_cached_pdfs env instance languages w1))"
      by simp
    also note Cons.IH [of w1]
    finally show ?thesis
      using None u l by (auto simp add: same w1 fun_eq_iff)
  qed
qed

text \<open>
  The path of a cached PDF file lies in the directory when the code of the problem does
  not begin with a slash.
\<close>

lemma os_path_join_relative:
  assumes "dir \<noteq> []" and "code = [] \<or> hd code \<noteq> CHR ''/''"
  shows "os_path_join dir (code @ ''.'' @ lang @ ''.pdf'') =
         (if last dir = CHR ''/'' then dir @ code @ ''.'' @ lang @ ''.pdf''
          else dir @ ''/'' @ code @ ''.'' @ lang @ ''.pdf'')"
  using assms by (cases code) (auto simp add: os_path_join_def)

subsection \<open>The keys each guarded handler deletes\<close>

lemma problem_update_cache:
  assumes "problem_updating_stats_only instance = None"
  shows "cache (snd (problem_update env instance w)) =
         cache w |` (- ({make_template_fragment_key env ''submission_problem''
                           [Int_arg (problem_id instance)],
                         make_template_fragment_key env ''problem_feed''
                           [Int_arg (problem_id instance)],
                         ''problem_tls:'' @ str_int (problem_id instance),
                         ''problem_mls:'' @ str_int (problem_id instance)} \<union>
                        {make_template_fragment_key env ''problem_html''
                           [Int_arg (problem_id instance), Str_arg engine, Str_arg lang] |
                         lang engine. lang \<in> fst ` set (LANGUAGES env) \<and>
                                      engine \<in> set (EFFECTIVE_MATH_ENGINES env)} \<union>
                        {make_template_fragment_key env ''problem_authors''
                           [Int_arg (problem_id instance), Str_arg lang] |
                         lang. lang \<in> fst ` set (LANGUAGES env)} \<union>
                        {''generated-meta-problem:'' @ lang @ '':'' @ str_int (problem_id instance) |
                         lang. lang \<in> fst ` set (LANGUAGES env)}))"
    (is "_ = cache w |` (- (?A \<union> ?B \<union> ?C \<union> ?D))")
proof -
  let ?la = "[make_template_fragment_key env ''submission_problem''
                      [Int_arg (problem_id instance)],
                    make_template_fragment_key env ''problem_feed''
                      [Int_arg (problem_id instance)],
                    ''problem_tls:'' @ str_int (problem_id instance),
                    ''problem_mls:'' @ str_int (problem_id instance)]"
  let ?lb = "[make_template_fragment_key env ''problem_html''
                      [Int_arg (problem_id instance), Str_arg engine, Str_arg lang].
                    (lang, name) \<leftarrow> LANGUAGES env, engine \<leftarrow> EFFECTIVE_MATH_ENGINES env]"
  let ?lc = "[make_template_fragment_key env ''problem_authors''
                      [Int_arg (problem_id instance), Str_arg lang].
                    (lang, name) \<leftarrow> LANGUAGES env]"
  let ?ld = "[''generated-meta-problem:'' @ lang @ '':'' @ str_int (problem_id instance).
                    (lang, name) \<leftarrow> LANGUAGES env]"
  let ?w4 = "cache_delete_many ?ld (cache_delete_many ?lc (cache_delete_many ?lb (cache_delete_many ?la w)))"
  have a: "set ?la = ?A" by simp
  have b: "set ?lb = ?B" by force
  have c: "set ?lc = ?C" by force
  have d: "set ?ld = ?D" by force
  have "problem_update env instance w = unlink_cached_pdfs env instance (LANGUAGES env) ?w4"
    using assms by (simp add: problem_update_def Let_def)
  then have "cache (snd (problem_update env instance w)) = cache ?w4"
    using cache_of_frame [OF unlink_cached_pdfs_frame] by simp
  also have "\<dots> = cache w |` (- set ?la) |` (- set ?lb) |` (- set ?lc) |` (- set ?ld)"
    by (simp only: cache_cache_delete_many)
  also have "\<dots> = cache w |` (- (?A \<union> ?B \<union> ?C \<union> ?D))"
    by (simp only: a b c d restrict_restrict_compl)
  finally show ?thesis .
qed

lemma problem_update_loop:
  assumes "problem_updating_stats_only instance = None"
    and "problem_update env instance w = (r, w')"
  shows "unlink_cached_pdfs env instance (LANGUAGES env) (w\<lparr>cache := cache w'\<rparr>) = (r, w')"
proof -
  obtain c where u: "problem_update env instance w =
      unlink_cached_pdfs env instance (LANGUAGES env) (w\<lparr>cache := c\<rparr>)"
    using assms(1) by (simp add: problem_update_def Let_def cache_delete_many_eq)
  with assms(2) have l: "unlink_cached_pdfs env instance (LANGUAGES env) (w\<lparr>cache := c\<rparr>) = (r, w')"
    by simp
  have "cache (snd (unlink_cached_pdfs env instance (LANGUAGES env) (w\<lparr>cache := c\<rparr>))) =
        cache (w\<lparr>cache := c\<rparr>)"
    by (rule cache_of_frame [OF unlink_cached_pdfs_frame])
  with l have "cache w' = c" by simp
  with l show ?thesis by simp
qed

lemma problem_update_returns:
  assumes "\<And>path e. files w path = Some (Refused e) \<Longrightarrow> e = ENOENT"
  shows "fst (problem_update env instance w) = None"
proof (cases "problem_updating_stats_only instance = None")
  case True
  obtain c where "problem_update env instance w =
      unlink_cached_pdfs env instance (LANGUAGES env) (w\<lparr>cache := c\<rparr>)"
    using True by (simp add: problem_update_def Let_def cache_delete_many_eq)
  moreover have "fst (unlink_cached_pdfs env instance (LANGUAGES env) (w\<lparr>cache := c\<rparr>)) = None"
    by (rule unlink_cached_pdfs_returns) (use assms in simp)
  ultimately show ?thesis by simp
next
  case False
  then show ?thesis by (simp add: problem_update_def)
qed

lemma profile_update_cache:
  assumes "profile_updating_stats_only instance = None"
  shows "profile_update env instance w =
         w\<lparr>cache := cache w |`
              (- ({make_template_fragment_key env ''user_about''
                     [Int_arg (profile_id instance), Str_arg engine] |
                   engine. engine \<in> set (EFFECTIVE_MATH_ENGINES env)} \<union>
                  {make_template_fragment_key env ''org_member_count'' [Int_arg org_id] |
                   org_id. (profile_id instance, org_id) \<in> set (profile_organizations w)}))\<rparr>"
    (is "_ = w\<lparr>cache := cache w |` (- (?A \<union> ?B))\<rparr>")
proof -
  let ?la = "[make_template_fragment_key env ''user_about''
                 [Int_arg (profile_id instance), Str_arg engine].
               engine \<leftarrow> EFFECTIVE_MATH_ENGINES env]"
  let ?lb = "[make_template_fragment_key env ''org_member_count'' [Int_arg org_id].
               org_id \<leftarrow> organizations_values_list_id instance w]"
  have a: "set ?la = ?A" by auto
  have b: "set ?lb = ?B" by (force simp add: organizations_values_list_id_def)
  have "profile_update env instance w = w\<lparr>cache := cache w |` (- set (?la @ ?lb))\<rparr>"
    using assms by (simp only: profile_update_def cache_delete_many_eq) simp
  also have "set (?la @ ?lb) = ?A \<union> ?B"
    by (simp only: set_append a b)
  finally show ?thesis .
qed

lemma contest_update_cache:
  assumes "contest_updating_stats_only instance = None"
  shows "contest_update env instance w =
         w\<lparr>cache := cache w |`
              (- ({''generated-meta-contest:'' @ str_int (contest_id instance)} \<union>
                  {make_template_fragment_key env ''contest_html''
                     [Int_arg (contest_id instance), Str_arg engine] |
                   engine. engine \<in> set (EFFECTIVE_MATH_ENGINES env)}))\<rparr>"
    (is "_ = w\<lparr>cache := cache w |` (- (?A \<union> ?B))\<rparr>")
proof -
  let ?la = "[''generated-meta-contest:'' @ str_int (contest_id instance)]"
  let ?lb = "[make_template_fragment_key env ''contest_html''
                 [Int_arg (contest_id instance), Str_arg engine].
               engine \<leftarrow> EFFECTIVE_MATH_ENGINES env]"
  have a: "set ?la = ?A" by simp
  have b: "set ?lb = ?B" by auto
  have "contest_update env instance w = w\<lparr>cache := cache w |` (- set (?la @ ?lb))\<rparr>"
    using assms by (simp only: contest_update_def cache_delete_many_eq) simp
  also have "set (?la @ ?lb) = ?A \<union> ?B"
    by (simp only: set_append a b)
  finally show ?thesis .
qed

subsection \<open>Deleting a submission\<close>

text \<open>
  Claim C1. On \<open>post_delete\<close> of a submission the handler calls, in this order,
  \<open>finished_submission\<close> on the deleted instance, \<open>calculate_points\<close> on the profile of
  the submitting user and \<open>update_stats\<close> on the problem; the profile, and then the problem,
  carries the attribute \<open>_updating_stats_only\<close> when it is handed to its call. The handler
  does nothing else: the instance changes in these two attributes only, and the world in the
  log of the three calls only, so no points or statistics are computed in the handler.
\<close>

theorem submission_delete_calls:
  "submission_delete instance w =
     (instance\<lparr>submission_user :=
                 (submission_user instance)\<lparr>profile_updating_stats_only := Some True\<rparr>,
               submission_problem :=
                 (submission_problem instance)\<lparr>problem_updating_stats_only := Some True\<rparr>\<rparr>,
      w\<lparr>calls := calls w @
           [Finished_submission instance,
            Calculate_points ((submission_user instance)\<lparr>profile_updating_stats_only := Some True\<rparr>),
            Update_stats ((submission_problem instance)\<lparr>problem_updating_stats_only := Some True\<rparr>)]\<rparr>)"
  by (simp add: submission_delete_def call_def Let_def)

text \<open>
  The submission of the concrete installation.
\<close>

theorem submission_delete_calls_witness:
  "calls (snd (submission_delete example_submission example_world)) =
     [Finished_submission example_submission,
      Calculate_points (example_profile\<lparr>profile_updating_stats_only := Some True\<rparr>),
      Update_stats (example_problem\<lparr>problem_updating_stats_only := Some True\<rparr>)]"
  using submission_delete_calls [of example_submission example_world]
  by (simp add: example_submission_def example_world_def)

subsection \<open>The guard\<close>

text \<open>
  Claim C2. On \<open>post_save\<close> of a problem, a profile or a contest that carries the
  attribute \<open>_updating_stats_only\<close>, the handler returns at once and leaves the whole world,
  the cache and the file system with it, as it was. On an instance without the attribute
  the handler deletes the cache keys of the instance.
\<close>

theorem updating_stats_only_guard:
  "(problem_updating_stats_only p \<noteq> None \<longrightarrow> problem_update env p w = (None, w)) \<and>
   (profile_updating_stats_only u \<noteq> None \<longrightarrow> profile_update env u w = w) \<and>
   (contest_updating_stats_only c \<noteq> None \<longrightarrow> contest_update env c w = w) \<and>
   (problem_updating_stats_only p = None \<longrightarrow>
      cache (snd (problem_update env p w)) =
        cache w |` (- ({make_template_fragment_key env ''submission_problem'' [Int_arg (problem_id p)],
                        make_template_fragment_key env ''problem_feed'' [Int_arg (problem_id p)],
                        ''problem_tls:'' @ str_int (problem_id p),
                        ''problem_mls:'' @ str_int (problem_id p)} \<union>
                       {make_template_fragment_key env ''problem_html''
                          [Int_arg (problem_id p), Str_arg engine, Str_arg lang] |
                        lang engine. lang \<in> fst ` set (LANGUAGES env) \<and>
                                     engine \<in> set (EFFECTIVE_MATH_ENGINES env)} \<union>
                       {make_template_fragment_key env ''problem_authors''
                          [Int_arg (problem_id p), Str_arg lang] |
                        lang. lang \<in> fst ` set (LANGUAGES env)} \<union>
                       {''generated-meta-problem:'' @ lang @ '':'' @ str_int (problem_id p) |
                        lang. lang \<in> fst ` set (LANGUAGES env)}))) \<and>
   (profile_updating_stats_only u = None \<longrightarrow>
      profile_update env u w =
        w\<lparr>cache := cache w |`
             (- ({make_template_fragment_key env ''user_about''
                    [Int_arg (profile_id u), Str_arg engine] |
                  engine. engine \<in> set (EFFECTIVE_MATH_ENGINES env)} \<union>
                 {make_template_fragment_key env ''org_member_count'' [Int_arg org_id] |
                  org_id. (profile_id u, org_id) \<in> set (profile_organizations w)}))\<rparr>) \<and>
   (contest_updating_stats_only c = None \<longrightarrow>
      contest_update env c w =
        w\<lparr>cache := cache w |`
             (- ({''generated-meta-contest:'' @ str_int (contest_id c)} \<union>
                 {make_template_fragment_key env ''contest_html''
                    [Int_arg (contest_id c), Str_arg engine] |
                  engine. engine \<in> set (EFFECTIVE_MATH_ENGINES env)}))\<rparr>)"
proof (intro conjI impI)
  assume "problem_updating_stats_only p \<noteq> None"
  then show "problem_update env p w = (None, w)"
    by (simp add: problem_update_def)
next
  assume "profile_updating_stats_only u \<noteq> None"
  then show "profile_update env u w = w"
    by (simp add: profile_update_def)
next
  assume "contest_updating_stats_only c \<noteq> None"
  then show "contest_update env c w = w"
    by (simp add: contest_update_def)
qed (fact problem_update_cache profile_update_cache contest_update_cache)+

text \<open>
  The problem, the profile and the contest of the concrete installation, with the
  attribute and without it.
\<close>

theorem updating_stats_only_guard_witness:
  "problem_update example_env (example_problem\<lparr>problem_updating_stats_only := Some True\<rparr>)
     example_world = (None, example_world) \<and>
   profile_update example_env (example_profile\<lparr>profile_updating_stats_only := Some True\<rparr>)
     example_world = example_world \<and>
   contest_update example_env (example_contest\<lparr>contest_updating_stats_only := Some True\<rparr>)
     example_world = example_world \<and>
   cache (snd (problem_update example_env example_problem example_world)) ''problem_tls:1'' = None \<and>
   cache (profile_update example_env example_profile example_world)
     (example_fragment_key ''org_member_count'' [Int_arg 4]) = None \<and>
   cache (contest_update example_env example_contest example_world)
     ''generated-meta-contest:5'' = None"
  using
    updating_stats_only_guard
      [of "example_problem\<lparr>problem_updating_stats_only := Some True\<rparr>" example_env example_world
          "example_profile\<lparr>profile_updating_stats_only := Some True\<rparr>"
          "example_contest\<lparr>contest_updating_stats_only := Some True\<rparr>"]
    updating_stats_only_guard
      [of example_problem example_env example_world example_profile example_contest]
  by (simp add: example_env_def example_problem_def example_profile_def example_contest_def
      example_world_def str_int_1 str_int_5 restrict_map_def)

text \<open>
  The attribute that the handler of a deleted submission sets is the one the guard
  tests: when \<open>calculate_points\<close> and \<open>update_stats\<close> save the profile and the problem
  they are given, the handlers of \<open>post_save\<close> return at once.
\<close>

lemma submission_delete_sets_guard:
  "profile_update env (submission_user (fst (submission_delete instance w))) w' = w' \<and>
   problem_update env (submission_problem (fst (submission_delete instance w))) w' = (None, w')"
  by (simp add: submission_delete_def Let_def profile_update_def problem_update_def)

subsection \<open>Deleting a contest problem\<close>

text \<open>
  Claim C3. On \<open>post_delete\<close> of a contest problem, a submission whose
  \<open>contest_object\<close> is the contest of the deleted problem and which has no contest
  submission has its \<open>contest_object\<close> set to null; a submission with a contest submission,
  or of another contest, is left as it is; no submission appears or disappears, and
  nothing but the submission table changes.
\<close>

theorem contest_problem_delete_nullifies:
  "(submissions w pk = Some row \<and>
    row_contest_object_id row = Some (contest_id (cp_contest instance)) \<and>
    pk \<notin> set (contest_submission_rows w) \<longrightarrow>
      submissions (contest_problem_delete instance w) pk =
        Some (row\<lparr>row_contest_object_id := None\<rparr>)) \<and>
   (submissions w pk = Some row \<and>
    (pk \<in> set (contest_submission_rows w) \<or>
     row_contest_object_id row \<noteq> Some (contest_id (cp_contest instance))) \<longrightarrow>
      submissions (contest_problem_delete instance w) pk = Some row) \<and>
   (submissions w pk = None \<longrightarrow>
      submissions (contest_problem_delete instance w) pk = None) \<and>
   (contest_problem_delete instance w)\<lparr>submissions := submissions w\<rparr> = w"
  by (auto simp add: contest_problem_delete_def submissions_filter_update_def contest_isnull_def)

text \<open>
  Submission 7 is of contest 5 and has no contest submission, submission 10 is of
  contest 5 and has one, submission 9 is of contest 6, and there is no submission 12.
\<close>

theorem contest_problem_delete_nullifies_witness:
  "submissions
     (contest_problem_delete \<lparr>contest_problem_id = 2, cp_contest = example_contest\<rparr> example_world) 7 =
     Some \<lparr>row_user_id = 3, row_problem_id = 1, row_contest_object_id = None\<rparr> \<and>
   submissions
     (contest_problem_delete \<lparr>contest_problem_id = 2, cp_contest = example_contest\<rparr> example_world) 10 =
     Some \<lparr>row_user_id = 3, row_problem_id = 1, row_contest_object_id = Some 5\<rparr> \<and>
   submissions
     (contest_problem_delete \<lparr>contest_problem_id = 2, cp_contest = example_contest\<rparr> example_world) 9 =
     Some \<lparr>row_user_id = 3, row_problem_id = 1, row_contest_object_id = Some 6\<rparr> \<and>
   submissions
     (contest_problem_delete \<lparr>contest_problem_id = 2, cp_contest = example_contest\<rparr> example_world) 12 =
     None"
  using
    contest_problem_delete_nullifies
      [of example_world 7 "\<lparr>row_user_id = 3, row_problem_id = 1, row_contest_object_id = Some 5\<rparr>"
          "\<lparr>contest_problem_id = 2, cp_contest = example_contest\<rparr>"]
    contest_problem_delete_nullifies
      [of example_world 10 "\<lparr>row_user_id = 3, row_problem_id = 1, row_contest_object_id = Some 5\<rparr>"
          "\<lparr>contest_problem_id = 2, cp_contest = example_contest\<rparr>"]
    contest_problem_delete_nullifies
      [of example_world 9 "\<lparr>row_user_id = 3, row_problem_id = 1, row_contest_object_id = Some 6\<rparr>"
          "\<lparr>contest_problem_id = 2, cp_contest = example_contest\<rparr>"]
    contest_problem_delete_nullifies
      [of example_world 12 "\<lparr>row_user_id = 3, row_problem_id = 1, row_contest_object_id = Some 6\<rparr>"
          "\<lparr>contest_problem_id = 2, cp_contest = example_contest\<rparr>"]
  by (simp add: example_world_def example_contest_def)

subsection \<open>Deleting a contest submission\<close>

text \<open>
  Claim C4. On \<open>post_delete\<close> of a contest submission the handler calls
  \<open>recompute_results\<close> on the participation of the deleted record, and sets to null the
  \<open>contest_object\<close> of the submission whose primary key is the \<open>submission_id\<close> of the
  record; every other submission, and everything else in the world, is left as it is.
\<close>

theorem contest_submission_delete_effect:
  "calls (contest_submission_delete instance w) =
     calls w @ [Recompute_results (cs_participation instance)] \<and>
   submissions (contest_submission_delete instance w) (cs_submission_id instance) =
     map_option (\<lambda>row. row\<lparr>row_contest_object_id := None\<rparr>)
       (submissions w (cs_submission_id instance)) \<and>
   (pk \<noteq> cs_submission_id instance \<longrightarrow>
      submissions (contest_submission_delete instance w) pk = submissions w pk) \<and>
   (contest_submission_delete instance w)\<lparr>submissions := submissions w, calls := calls w\<rparr> = w"
  by (auto simp add: contest_submission_delete_def submissions_filter_update_def call_def Let_def
      split: option.splits)

text \<open>
  The contest submission of submission 10 is deleted; submission 7 is another one.
\<close>

theorem contest_submission_delete_effect_witness:
  "calls (contest_submission_delete (example_contest_submission\<lparr>cs_submission_id := 10\<rparr>) example_world) =
     [Recompute_results \<lparr>participation_id = 9, participation_contest_id = 5\<rparr>] \<and>
   submissions (contest_submission_delete (example_contest_submission\<lparr>cs_submission_id := 10\<rparr>)
     example_world) 10 =
     Some \<lparr>row_user_id = 3, row_problem_id = 1, row_contest_object_id = None\<rparr> \<and>
   submissions (contest_submission_delete (example_contest_submission\<lparr>cs_submission_id := 10\<rparr>)
     example_world) 7 =
     Some \<lparr>row_user_id = 3, row_problem_id = 1, row_contest_object_id = Some 5\<rparr>"
  using contest_submission_delete_effect
      [of "example_contest_submission\<lparr>cs_submission_id := 10\<rparr>" example_world 7]
  by (simp add: example_world_def example_contest_submission_def)

subsection \<open>Saving a problem\<close>

text \<open>
  Claim C5, as the module has it. On \<open>post_save\<close> of a problem without the attribute
  \<open>_updating_stats_only\<close> the cache keys deleted are exactly: the \<open>submission_problem\<close>
  and \<open>problem_feed\<close> fragment keys of the problem's id, \<open>problem_tls:<id>\<close> and
  \<open>problem_mls:<id>\<close>, the \<open>problem_html\<close> fragment key of every language and math
  engine, the \<open>problem_authors\<close> fragment key of every language, and
  \<open>generated-meta-problem:<lang>:<id>\<close> for every language; this holds also when the
  handler raises. When \<open>DMOJ_PDF_PROBLEM_CACHE\<close> is unset no file is touched and the handler
  returns normally. When it is set, the handler goes through the languages in the order of
  \<open>LANGUAGES\<close> and unlinks the cached PDF file \<open><code>.<lang>.pdf\<close> of that directory, up
  to the first language whose unlinking raises: that exception, an \<open>OSError\<close> with an
  \<open>errno\<close> other than \<open>ENOENT\<close>, leaves the handler; the files of the languages before
  it have been unlinked, and every other path, the files of that language and of the later
  ones among them, stays as it was. When the handler returns normally the file of every
  language has been unlinked. Nothing but the cache and the files changes.
\<close>

theorem problem_update_invalidates_upto_failure:
  assumes "problem_updating_stats_only instance = None"
    and "problem_update env instance w = (r, w')"
  shows
    "cache w' =
       cache w |` (- ({make_template_fragment_key env ''submission_problem''
                         [Int_arg (problem_id instance)],
                       make_template_fragment_key env ''problem_feed''
                         [Int_arg (problem_id instance)],
                       ''problem_tls:'' @ str_int (problem_id instance),
                       ''problem_mls:'' @ str_int (problem_id instance)} \<union>
                      {make_template_fragment_key env ''problem_html''
                         [Int_arg (problem_id instance), Str_arg engine, Str_arg lang] |
                       lang engine. lang \<in> fst ` set (LANGUAGES env) \<and>
                                    engine \<in> set (EFFECTIVE_MATH_ENGINES env)} \<union>
                      {make_template_fragment_key env ''problem_authors''
                         [Int_arg (problem_id instance), Str_arg lang] |
                       lang. lang \<in> fst ` set (LANGUAGES env)} \<union>
                      {''generated-meta-problem:'' @ lang @ '':'' @ str_int (problem_id instance) |
                       lang. lang \<in> fst ` set (LANGUAGES env)})) \<and>
     (DMOJ_PDF_PROBLEM_CACHE env = None \<or> DMOJ_PDF_PROBLEM_CACHE env = Some [] \<longrightarrow>
        (\<forall>basename. get_pdf_path env basename = None) \<and> r = None \<and> files w' = files w) \<and>
     (\<forall>dir. DMOJ_PDF_PROBLEM_CACHE env = Some dir \<and> dir \<noteq> [] \<longrightarrow>
        r = (case dropWhile (\<lambda>p. fst (unlink_if_exists p w) = None)
                    (map (\<lambda>(lang, name).
                            os_path_join dir (problem_code instance @ ''.'' @ lang @ ''.pdf''))
                       (LANGUAGES env)) of
               [] \<Rightarrow> None
             | p # ps \<Rightarrow> fst (unlink_if_exists p w)) \<and>
        files w' =
          (\<lambda>q. if q \<in> set (takeWhile (\<lambda>p. fst (unlink_if_exists p w) = None)
                           (map (\<lambda>(lang, name).
                                   os_path_join dir (problem_code instance @ ''.'' @ lang @ ''.pdf''))
                              (LANGUAGES env))) \<and>
                   files w q = Some Regular
                then None else files w q)) \<and>
     (\<forall>dir. DMOJ_PDF_PROBLEM_CACHE env = Some dir \<and> dir \<noteq> [] \<and> r = None \<longrightarrow>
        files w' =
          (\<lambda>q. if q \<in> (\<lambda>lang. os_path_join dir (problem_code instance @ ''.'' @ lang @ ''.pdf''))
                          ` fst ` set (LANGUAGES env) \<and>
                   files w q = Some Regular
                then None else files w q)) \<and>
     (\<forall>x. r = Some x \<longrightarrow>
        (\<exists>e path. x = OSError e \<and> e \<noteq> ENOENT \<and> files w path = Some (Refused e))) \<and>
     w'\<lparr>cache := cache w, files := files w\<rparr> = w"
proof -
  note loop = problem_update_loop [OF assms]
  let ?w4 = "w\<lparr>cache := cache w'\<rparr>"
  have fw: "files ?w4 = files w" by simp
  have c: "cache w' = cache w |` (- ({make_template_fragment_key env ''submission_problem''
                         [Int_arg (problem_id instance)],
                       make_template_fragment_key env ''problem_feed''
                         [Int_arg (problem_id instance)],
                       ''problem_tls:'' @ str_int (problem_id instance),
                       ''problem_mls:'' @ str_int (problem_id instance)} \<union>
                      {make_template_fragment_key env ''problem_html''
                         [Int_arg (problem_id instance), Str_arg engine, Str_arg lang] |
                       lang engine. lang \<in> fst ` set (LANGUAGES env) \<and>
                                    engine \<in> set (EFFECTIVE_MATH_ENGINES env)} \<union>
                      {make_template_fragment_key env ''problem_authors''
                         [Int_arg (problem_id instance), Str_arg lang] |
                       lang. lang \<in> fst ` set (LANGUAGES env)} \<union>
                      {''generated-meta-problem:'' @ lang @ '':'' @ str_int (problem_id instance) |
                       lang. lang \<in> fst ` set (LANGUAGES env)}))"
    using problem_update_cache [OF assms(1), of env w] assms(2) by simp
  have frame4: "w'\<lparr>files := files w\<rparr> = ?w4"
    using unlink_cached_pdfs_frame [of ?w4 env "instance" "LANGUAGES env"] loop by simp
  have "w'\<lparr>cache := cache w, files := files w\<rparr> = (w'\<lparr>files := files w\<rparr>)\<lparr>cache := cache w\<rparr>"
    by simp
  also have "\<dots> = w" by (simp add: frame4)
  finally have frame: "w'\<lparr>cache := cache w, files := files w\<rparr> = w" .
  have unset: "(\<forall>basename. get_pdf_path env basename = None) \<and> r = None \<and> files w' = files w"
    if "DMOJ_PDF_PROBLEM_CACHE env = None \<or> DMOJ_PDF_PROBLEM_CACHE env = Some []"
  proof -
    from that have none: "\<forall>basename. get_pdf_path env basename = None"
      by (auto simp add: get_pdf_path_def)
    from unlink_cached_pdfs_unset [OF none] loop
    have res: "(r, w') = (None, ?w4)" by simp
    then have "w' = ?w4" by simp
    then have "files w' = files ?w4" by (rule arg_cong)
    then have "files w' = files w" by simp
    moreover from res have "r = None" by simp
    ultimately show ?thesis using none by blast
  qed
  have upto: "r = (case dropWhile (\<lambda>p. fst (unlink_if_exists p w) = None)
                    (map (\<lambda>(lang, name).
                            os_path_join dir (problem_code instance @ ''.'' @ lang @ ''.pdf''))
                       (LANGUAGES env)) of
               [] \<Rightarrow> None
             | p # ps \<Rightarrow> fst (unlink_if_exists p w)) \<and>
        files w' =
          (\<lambda>q. if q \<in> set (takeWhile (\<lambda>p. fst (unlink_if_exists p w) = None)
                           (map (\<lambda>(lang, name).
                                   os_path_join dir (problem_code instance @ ''.'' @ lang @ ''.pdf''))
                              (LANGUAGES env))) \<and>
                   files w q = Some Regular
                then None else files w q)"
    if "DMOJ_PDF_PROBLEM_CACHE env = Some dir \<and> dir \<noteq> []" for dir
  proof -
    from that have d: "DMOJ_PDF_PROBLEM_CACHE env = Some dir" "dir \<noteq> []" by simp_all
    from unlink_cached_pdfs_fst [OF d, of "instance" "LANGUAGES env" ?w4]
         unlink_cached_pdfs_files_upto [OF d, of "instance" "LANGUAGES env" ?w4] loop
    show ?thesis
      by (simp add: unlink_if_exists_fst_cache cong: list.case_cong if_cong)
  qed
  have normal: "files w' =
          (\<lambda>q. if q \<in> (\<lambda>lang. os_path_join dir (problem_code instance @ ''.'' @ lang @ ''.pdf''))
                          ` fst ` set (LANGUAGES env) \<and>
                   files w q = Some Regular
                then None else files w q)"
    if "DMOJ_PDF_PROBLEM_CACHE env = Some dir \<and> dir \<noteq> [] \<and> r = None" for dir
  proof -
    from that loop have d: "DMOJ_PDF_PROBLEM_CACHE env = Some dir" "dir \<noteq> []"
      and l: "unlink_cached_pdfs env instance (LANGUAGES env) ?w4 = (None, w')"
      by simp_all
    from unlink_cached_pdfs_files [OF d l] show ?thesis
      by (simp only: fw)
  qed
  have raised: "\<exists>e path. x = OSError e \<and> e \<noteq> ENOENT \<and> files w path = Some (Refused e)"
    if "r = Some x" for x
  proof -
    from that loop have "unlink_cached_pdfs env instance (LANGUAGES env) ?w4 = (Some x, w')"
      by simp
    from unlink_cached_pdfs_raises [OF this] show ?thesis by simp
  qed
  from c unset upto normal raised frame show ?thesis by blast
qed

text \<open>
  The problem of the concrete installation is saved: with ordinary files, without a
  directory for the cached PDF files, and with a file that refuses to be unlinked.
\<close>

theorem problem_update_invalidates_upto_failure_witness:
  "fst (problem_update example_env example_problem example_world) = None \<and>
   cache (snd (problem_update example_env example_problem example_world)) ''problem_tls:1'' = None \<and>
   cache (snd (problem_update example_env example_problem example_world)) ''problem_tls:2'' = Some ''1.0'' \<and>
   files (snd (problem_update example_env example_problem example_world)) ''/pdf/aplusb.en.pdf'' = None \<and>
   files (snd (problem_update example_env example_problem example_world)) ''/pdf/fizzbuzz.en.pdf'' = Some Regular \<and>
   fst (problem_update (example_env\<lparr>DMOJ_PDF_PROBLEM_CACHE := None\<rparr>) example_problem example_world) = None \<and>
   files (snd (problem_update (example_env\<lparr>DMOJ_PDF_PROBLEM_CACHE := None\<rparr>) example_problem example_world))
     ''/pdf/aplusb.en.pdf'' = Some Regular \<and>
   fst (problem_update example_env example_problem refusing_world) = Some (OSError 13) \<and>
   files (snd (problem_update example_env example_problem refusing_world)) ''/pdf/aplusb.en.pdf'' =
     Some (Refused 13) \<and>
   files (snd (problem_update example_env example_problem refusing_world)) ''/pdf/aplusb.fr.pdf'' =
     Some Regular"
proof -
  have flag: "problem_updating_stats_only example_problem = None"
    by (simp add: example_problem_def)
  have run: "problem_update env example_problem w =
      (fst (problem_update env example_problem w), snd (problem_update env example_problem w))"
    for env w
    by simp
  have other: "''problem_tls:2'' \<notin>
      {make_template_fragment_key example_env ''submission_problem'' [Int_arg (problem_id example_problem)],
       make_template_fragment_key example_env ''problem_feed'' [Int_arg (problem_id example_problem)],
       ''problem_tls:'' @ str_int (problem_id example_problem),
       ''problem_mls:'' @ str_int (problem_id example_problem)} \<union>
      {make_template_fragment_key example_env ''problem_html''
         [Int_arg (problem_id example_problem), Str_arg engine, Str_arg lang] |
       lang engine. lang \<in> fst ` set (LANGUAGES example_env) \<and>
                    engine \<in> set (EFFECTIVE_MATH_ENGINES example_env)} \<union>
      {make_template_fragment_key example_env ''problem_authors''
         [Int_arg (problem_id example_problem), Str_arg lang] |
       lang. lang \<in> fst ` set (LANGUAGES example_env)} \<union>
      {''generated-meta-problem:'' @ lang @ '':'' @ str_int (problem_id example_problem) |
       lang. lang \<in> fst ` set (LANGUAGES example_env)}"
    by (auto simp add: example_env_def example_problem_def example_fragment_key_def str_int_1)
  from problem_update_invalidates_upto_failure [OF flag run [of example_env example_world]]
       problem_update_invalidates_upto_failure
         [OF flag run [of "example_env\<lparr>DMOJ_PDF_PROBLEM_CACHE := None\<rparr>" example_world]]
       problem_update_invalidates_upto_failure [OF flag run [of example_env refusing_world]]
       other
  show ?thesis
    by (simp add: example_env_def example_problem_def example_world_def refusing_world_def
        os_path_join_def unlink_if_exists_cases ENOENT_def str_int_1 restrict_map_def)
qed

text \<open>
  Claim C5 as it is written says that the cached PDF file of every language is unlinked
  when \<open>DMOJ_PDF_PROBLEM_CACHE\<close> is set. Here the setting is \<open>/pdf\<close>, the languages are
  \<open>en\<close> and \<open>fr\<close>, and unlinking the file of \<open>en\<close> fails with \<open>EACCES\<close>: the handler
  raises, and the file of \<open>fr\<close>, an ordinary file, is still there.
\<close>

theorem problem_update_unlink_counterexample:
  "problem_updating_stats_only example_problem = None \<and>
   DMOJ_PDF_PROBLEM_CACHE example_env = Some ''/pdf'' \<and>
   LANGUAGES example_env = [(''en'', ''English''), (''fr'', ''French'')] \<and>
   os_path_join ''/pdf'' (problem_code example_problem @ ''.'' @ ''fr'' @ ''.pdf'') =
     ''/pdf/aplusb.fr.pdf'' \<and>
   files refusing_world ''/pdf/aplusb.fr.pdf'' = Some Regular \<and>
   fst (problem_update example_env example_problem refusing_world) = Some (OSError 13) \<and>
   files (snd (problem_update example_env example_problem refusing_world))
     ''/pdf/aplusb.fr.pdf'' = Some Regular"
proof -
  obtain c where "problem_update example_env example_problem refusing_world =
      unlink_cached_pdfs example_env example_problem (LANGUAGES example_env)
        (refusing_world\<lparr>cache := c\<rparr>)"
    by (simp add: problem_update_def Let_def cache_delete_many_eq example_problem_def)
  moreover have "unlink_cached_pdfs example_env example_problem (LANGUAGES example_env)
        (refusing_world\<lparr>cache := c\<rparr>) = (Some (OSError 13), refusing_world\<lparr>cache := c\<rparr>)"
    by (simp add: example_env_def example_problem_def refusing_world_def get_pdf_path_def
        os_path_join_def unlink_if_exists_cases ENOENT_def)
  ultimately show ?thesis
    by (simp add: example_env_def example_problem_def refusing_world_def os_path_join_def)
qed

subsection \<open>Saving a contest submission\<close>

text \<open>
  Claim C6. On \<open>post_save\<close> of a contest submission the handler sets the
  \<open>contest_object_id\<close> of the submission whose primary key is the \<open>submission_id\<close> of the
  saved record to the \<open>contest_id\<close> of the participation of the record; every other
  submission is left as it is, no cache key is deleted, and nothing but the submission table
  changes.
\<close>

theorem contest_submission_update_effect:
  "submissions (contest_submission_update instance w) (cs_submission_id instance) =
     map_option
       (\<lambda>row. row\<lparr>row_contest_object_id :=
                  Some (participation_contest_id (cs_participation instance))\<rparr>)
       (submissions w (cs_submission_id instance)) \<and>
   (pk \<noteq> cs_submission_id instance \<longrightarrow>
      submissions (contest_submission_update instance w) pk = submissions w pk) \<and>
   cache (contest_submission_update instance w) = cache w \<and>
   (contest_submission_update instance w)\<lparr>submissions := submissions w\<rparr> = w"
  by (auto simp add: contest_submission_update_def submissions_filter_update_def
      split: option.splits)

text \<open>
  The contest submission of submission 8 is saved; submission 9 is another one.
\<close>

theorem contest_submission_update_effect_witness:
  "submissions (contest_submission_update example_contest_submission example_world) 8 =
     Some \<lparr>row_user_id = 3, row_problem_id = 1, row_contest_object_id = Some 5\<rparr> \<and>
   submissions (contest_submission_update example_contest_submission example_world) 9 =
     Some \<lparr>row_user_id = 3, row_problem_id = 1, row_contest_object_id = Some 6\<rparr> \<and>
   cache (contest_submission_update example_contest_submission example_world) ''misc_config'' =
     Some ''value''"
  using contest_submission_update_effect [of example_contest_submission example_world 9]
  by (simp add: example_world_def example_contest_submission_def)

subsection \<open>The registrations\<close>

text \<open>
  Claim C7. The module registers sixteen handlers, which is at least ten. Every handler is
  registered exactly once, so it is bound to one signal of one sender. The senders of
  \<open>post_save\<close> are Problem, Profile, Contest, License, Language, Judge, Comment, BlogPost,
  Organization, MiscConfig and ContestSubmission; the senders of \<open>post_delete\<close> are
  WebAuthnCredential, ContestProblem, Submission, ContestSubmission and MiscConfig.
\<close>

theorem receivers_bound_once:
  "length receivers = 16 \<and> 10 \<le> length receivers \<and>
   distinct (map (\<lambda>(signal, sender, handler). handler) receivers) \<and>
   (\<forall>h. length (filter (\<lambda>(signal, sender, handler). handler = h) receivers) = 1) \<and>
   set [sender. (signal, sender, handler) \<leftarrow> receivers, signal = Post_save] =
     {Problem, Profile, Contest, License, Language, Judge, Comment, BlogPost, Organization,
      MiscConfig, ContestSubmission} \<and>
   set [sender. (signal, sender, handler) \<leftarrow> receivers, signal = Post_delete] =
     {WebAuthnCredential, ContestProblem, Submission, ContestSubmission, MiscConfig}"
proof (intro conjI allI)
  fix h
  show "length (filter (\<lambda>(signal, sender, handler). handler = h) receivers) = 1"
    by (cases h) (simp_all add: receivers_def)
qed (auto simp add: receivers_def)

subsection \<open>Deleting a credential\<close>

text \<open>
  Claim C8. On \<open>post_delete\<close> of a credential: when the profile of the credential has
  credentials left, nothing is modified. When it has none, the field
  \<open>is_webauthn_enabled\<close> of the profile is set to \<open>False\<close> and the profile is saved with
  \<open>update_fields\<close> holding this one field: the row of the profile changes in the column
  \<open>is_webauthn_enabled\<close> only, and no other row of the table changes. (Were there no row
  for the profile, which the foreign key of the credential excludes, \<open>save\<close> would raise
  and nothing would be written.)
\<close>

theorem webauthn_delete_effect:
  assumes "webauthn_delete env instance w = (r, instance', w')"
  shows
    "(webauthn_credentials_count (credential_user instance) w \<noteq> 0 \<longrightarrow>
        r = None \<and> instance' = instance \<and> w' = w) \<and>
     (webauthn_credentials_count (credential_user instance) w = 0 \<longrightarrow>
        instance' = instance\<lparr>credential_user :=
                      (credential_user instance)\<lparr>is_webauthn_enabled := False\<rparr>\<rparr> \<and>
        (\<forall>row. profiles w (profile_id (credential_user instance)) = Some row \<longrightarrow>
           r = None \<and>
           profiles w' = (profiles w)(profile_id (credential_user instance) \<mapsto>
                            row\<lparr>row_is_webauthn_enabled := False\<rparr>)) \<and>
        (profiles w (profile_id (credential_user instance)) = None \<longrightarrow>
           r = Some DatabaseError \<and> w' = w))"
proof (intro conjI impI allI)
  assume "webauthn_credentials_count (credential_user instance) w \<noteq> 0"
  with assms show "r = None" and "instance' = instance" and "w' = w"
    by (simp_all add: webauthn_delete_def Let_def)
next
  assume zero: "webauthn_credentials_count (credential_user instance) w = 0"
  with assms show "instance' = instance\<lparr>credential_user :=
                      (credential_user instance)\<lparr>is_webauthn_enabled := False\<rparr>\<rparr>"
    by (auto simp add: webauthn_delete_def Let_def split: prod.splits)
  fix row
  assume row: "profiles w (profile_id (credential_user instance)) = Some row"
  let ?p = "(credential_user instance)\<lparr>is_webauthn_enabled := False\<rparr>"
  let ?w1 = "w\<lparr>profiles := (profiles w)(profile_id (credential_user instance) \<mapsto>
                row\<lparr>row_is_webauthn_enabled := False\<rparr>)\<rparr>"
  have written: "\<lparr>row_is_webauthn_enabled = False, row_is_totp_enabled = row_is_totp_enabled row,
      row_display_rank = row_display_rank row\<rparr> = row\<lparr>row_is_webauthn_enabled := False\<rparr>"
    by (cases row) simp
  have save: "profile_save env ?p [''is_webauthn_enabled''] w = (None, profile_update env ?p ?w1)"
    using row by (simp add: profile_save_def written)
  with assms zero have res: "r = None" "w' = profile_update env ?p ?w1"
    by (simp_all add: webauthn_delete_def Let_def)
  show "r = None" by fact
  have "profiles (profile_update env ?p ?w1) = profiles ?w1"
    by (simp add: profile_update_def cache_delete_many_eq)
  with res show "profiles w' = (profiles w)(profile_id (credential_user instance) \<mapsto>
                            row\<lparr>row_is_webauthn_enabled := False\<rparr>)"
    by simp
next
  assume "webauthn_credentials_count (credential_user instance) w = 0"
    and "profiles w (profile_id (credential_user instance)) = None"
  with assms show "r = Some DatabaseError" and "w' = w"
    by (simp_all add: webauthn_delete_def Let_def profile_save_def)
qed

text \<open>
  The last credential of a profile is deleted whose object carries a rank that its row
  does not: the row keeps its rank. And a credential is deleted of a profile that has
  another one left.
\<close>

theorem webauthn_delete_effect_witness:
  "fst (webauthn_delete example_env
          \<lparr>webauthn_credential_id = 1,
           credential_user = example_profile\<lparr>display_rank := ''admin''\<rparr>\<rparr> example_world) = None \<and>
   fst (snd (webauthn_delete example_env
          \<lparr>webauthn_credential_id = 1,
           credential_user = example_profile\<lparr>display_rank := ''admin''\<rparr>\<rparr> example_world)) =
     \<lparr>webauthn_credential_id = 1,
      credential_user = example_profile\<lparr>display_rank := ''admin'', is_webauthn_enabled := False\<rparr>\<rparr> \<and>
   profiles (snd (snd (webauthn_delete example_env
          \<lparr>webauthn_credential_id = 1,
           credential_user = example_profile\<lparr>display_rank := ''admin''\<rparr>\<rparr> example_world))) 3 =
     Some \<lparr>row_is_webauthn_enabled = False, row_is_totp_enabled = False,
            row_display_rank = ''user''\<rparr> \<and>
   webauthn_delete example_env
     \<lparr>webauthn_credential_id = 1, credential_user = example_profile\<lparr>display_rank := ''admin''\<rparr>\<rparr>
     (example_world\<lparr>webauthn_credential_rows := [3]\<rparr>) =
     (None,
      \<lparr>webauthn_credential_id = 1, credential_user = example_profile\<lparr>display_rank := ''admin''\<rparr>\<rparr>,
      example_world\<lparr>webauthn_credential_rows := [3]\<rparr>)"
proof -
  let ?i = "\<lparr>webauthn_credential_id = 1,
             credential_user = example_profile\<lparr>display_rank := ''admin''\<rparr>\<rparr>"
  let ?w = "example_world\<lparr>webauthn_credential_rows := [3]\<rparr>"
  have run: "webauthn_delete example_env ?i w =
      (fst (webauthn_delete example_env ?i w), fst (snd (webauthn_delete example_env ?i w)),
       snd (snd (webauthn_delete example_env ?i w)))" for w
    by simp
  have none_left: "webauthn_credentials_count (credential_user ?i) example_world = 0"
    by (simp add: webauthn_credentials_count_def example_world_def)
  have one_left: "webauthn_credentials_count (credential_user ?i) ?w \<noteq> 0"
    by (simp add: webauthn_credentials_count_def example_profile_def)
  have row: "profiles example_world (profile_id (credential_user ?i)) =
      Some \<lparr>row_is_webauthn_enabled = True, row_is_totp_enabled = False,
             row_display_rank = ''user''\<rparr>"
    by (simp add: example_world_def example_profile_def)
  have pk: "profile_id example_profile = 3"
    by (simp add: example_profile_def)
  from webauthn_delete_effect [OF run [of example_world]] none_left row
  have "fst (webauthn_delete example_env ?i example_world) = None"
    and "fst (snd (webauthn_delete example_env ?i example_world)) =
         ?i\<lparr>credential_user := (credential_user ?i)\<lparr>is_webauthn_enabled := False\<rparr>\<rparr>"
    and "profiles (snd (snd (webauthn_delete example_env ?i example_world))) =
         (profiles example_world)(profile_id (credential_user ?i) \<mapsto>
            \<lparr>row_is_webauthn_enabled = True, row_is_totp_enabled = False,
             row_display_rank = ''user''\<rparr>\<lparr>row_is_webauthn_enabled := False\<rparr>)"
    by blast+
  moreover from webauthn_delete_effect [OF run [of ?w]] one_left
  have "fst (webauthn_delete example_env ?i ?w) = None"
    and "fst (snd (webauthn_delete example_env ?i ?w)) = ?i"
    and "snd (snd (webauthn_delete example_env ?i ?w)) = ?w"
    by blast+
  ultimately show ?thesis
    by (simp add: pk prod_eq_iff)
qed

subsection \<open>The handlers of MiscConfig\<close>

text \<open>
  Claim C10. The handler of \<open>post_save\<close> and the handler of \<open>post_delete\<close> for
  MiscConfig are the same function: for every instance each deletes the cache key
  \<open>misc_config\<close> and changes nothing else.
\<close>

theorem misc_config_handlers_equal:
  "misc_config_update = misc_config_delete \<and>
   misc_config_update instance w = w\<lparr>cache := (cache w)(''misc_config'' := None)\<rparr> \<and>
   misc_config_delete instance w = w\<lparr>cache := (cache w)(''misc_config'' := None)\<rparr>"
  by (auto simp add: misc_config_update_def misc_config_delete_def cache_delete_def fun_eq_iff)

text \<open>
  Saving and deleting a configuration entry in the concrete installation.
\<close>

theorem misc_config_handlers_equal_witness:
  "cache (misc_config_update \<lparr>misc_config_key = ''k'', misc_config_value = ''v''\<rparr> example_world)
     ''misc_config'' = None \<and>
   cache (misc_config_delete \<lparr>misc_config_key = ''k'', misc_config_value = ''v''\<rparr> example_world)
     ''misc_config'' = None \<and>
   cache (misc_config_delete \<lparr>misc_config_key = ''k'', misc_config_value = ''v''\<rparr> example_world)
     ''problem_tls:1'' = Some ''2.0''"
  using misc_config_handlers_equal
      [of "\<lparr>misc_config_key = ''k'', misc_config_value = ''v''\<rparr>" example_world]
  by (simp add: example_world_def)

end
